theory Spec2Isabelle
  imports Main
begin

section \<open>The keep-alive tool: data model\<close>

text \<open>
  The program (\<^verbatim>\<open>main.go\<close>) is one event loop and one platform strategy that shells out
  to a helper program. Everything it touches outside its own control flow is made an
  explicit input or output of the model:
  \<^item> the console is the list of texts written by the successive \<^verbatim>\<open>fmt.Print*\<close> calls;
  \<^item> an external command is the name and the arguments given to \<^verbatim>\<open>exec.Command\<close>;
  \<^item> what the operating system answers during one call of the strategy (is a program on
    the search path, how does a command end, what does the clock show) is a \<open>world\<close>;
  \<^item> the case that \<^verbatim>\<open>select\<close> takes in each round of the loop is an \<open>event\<close>.
\<close>

type_synonym error = string

datatype cmd = Command string "string list"

record world =
  LookPath :: "string \<Rightarrow> error + string"
  Run :: "cmd \<Rightarrow> error option"
  Now :: string

text \<open>
  \<open>LookPath w name\<close> is \<^verbatim>\<open>exec.LookPath(name)\<close> (\<open>Inl\<close> the error), \<open>Run w c\<close> is the
  error of \<^verbatim>\<open>cmd.Run()\<close> (\<open>None\<close> for \<^verbatim>\<open>nil\<close>), and \<open>Now w\<close> is
  \<^verbatim>\<open>time.Now().Format("15:04:05")\<close>.
\<close>

datatype status = Running | Exited nat

record proc =
  stdout :: "string list"
  started :: "cmd list"
  status :: status

datatype event = Signal | KeyboardQuit | Tick world

record build =
  Version :: string
  BuildTime :: string
  Environment :: string

definition proc0 :: proc where
  "proc0 = \<lparr>stdout = [], started = [], status = Running\<rparr>"

text \<open>\<open>proc0\<close> is the process as it starts: nothing written, nothing run.\<close>

definition Printf :: "string \<Rightarrow> proc \<Rightarrow> proc" where
  "Printf s p = p\<lparr>stdout := stdout p @ [s]\<rparr>"

definition Println :: "string \<Rightarrow> proc \<Rightarrow> proc" where
  "Println s p = Printf (s @ ''\<newline>'') p"

text \<open>A block of statements, run in the order written.\<close>

definition steps :: "(proc \<Rightarrow> proc) list \<Rightarrow> proc \<Rightarrow> proc" where
  "steps fs p = fold (\<lambda>f q. f q) fs p"

definition tabs :: "nat \<Rightarrow> string" where
  "tabs n = replicate n (CHR 0x09)"

section \<open>The platform strategy\<close>

text \<open>The two raw string literals of \<^verbatim>\<open>_simulateActivity\<close>, byte for byte.\<close>

definition script_darwin :: string where
  "script_darwin = concat
    [''\<newline>'',
     tabs 4 @ ''tell application \"System Events\"\<newline>'',
     tabs 5 @ ''set currentPos to (get position of mouse)\<newline>'',
     tabs 5 @ ''set mouseX to item 1 of currentPos\<newline>'',
     tabs 5 @ ''set mouseY to item 2 of currentPos\<newline>'',
     tabs 5 @ ''set mouse position to {mouseX + 1, mouseY + 1}\<newline>'',
     tabs 5 @ ''delay 0.01\<newline>'',
     tabs 5 @ ''set mouse position to {mouseX, mouseY}\<newline>'',
     tabs 4 @ ''end tell\<newline>'',
     tabs 3]"

definition script_windows :: string where
  "script_windows = concat
    [''\<newline>'',
     tabs 3 @ ''Add-Type -TypeDefinition '\<newline>'',
     tabs 4 @ ''using System;\<newline>'',
     tabs 4 @ ''using System.Runtime.InteropServices;\<newline>'',
     tabs 4 @ ''public class Win32 {\<newline>'',
     tabs 5 @ ''[DllImport(\"user32.dll\")]\<newline>'',
     tabs 5 @ ''public static extern bool GetCursorPos(out POINT lpPoint);\<newline>'',
     tabs 5 @ ''[DllImport(\"user32.dll\")]\<newline>'',
     tabs 5 @ ''public static extern bool SetCursorPos(int x, int y);\<newline>'',
     tabs 5 @ ''public struct POINT { public int x; public int y; }\<newline>'',
     tabs 4 @ ''}\<newline>'',
     tabs 3 @ ''';\<newline>'',
     tabs 3 @ ''$pos = New-Object Win32+POINT;\<newline>'',
     tabs 3 @ ''[Win32]::GetCursorPos([ref]$pos);\<newline>'',
     tabs 3 @ ''[Win32]::SetCursorPos($pos.x + 1, $pos.y + 1);\<newline>'',
     tabs 3 @ ''Start-Sleep -Milliseconds 10;\<newline>'',
     tabs 3 @ ''[Win32]::SetCursorPos($pos.x, $pos.y);\<newline>'',
     tabs 2]"

text \<open>
  \<^verbatim>\<open>_simulateActivity\<close> (an Isabelle name cannot start with an underscore). The
  \<^verbatim>\<open>switch\<close> either builds the command or, in its \<^verbatim>\<open>default\<close> branch, prints and
  returns; the command is then run and its error, if any, reported.
\<close>

definition simulateActivity :: "string \<Rightarrow> world \<Rightarrow> proc \<Rightarrow> proc" where
  "simulateActivity goos w p =
    (let sel =
       (if goos = ''darwin'' then
          (case LookPath w ''cliclick'' of
             Inr _ \<Rightarrow> Some (Command ''cliclick'' [''m:+1,+1'', ''w:10'', ''m:-1,-1''])
           | Inl _ \<Rightarrow> Some (Command ''osascript'' [''-e'', script_darwin]))
        else if goos = ''windows'' then
          Some (Command ''powershell'' [''-Command'', script_windows])
        else None)
     in case sel of
       None \<Rightarrow>
         Printf (''['' @ Now w @ ''] Error: Unsupported operating system: '' @ goos
                 @ ''\<newline>'') p
     | Some c \<Rightarrow>
         (let p1 = p\<lparr>started := started p @ [c]\<rparr> in
          case Run w c of
            Some err \<Rightarrow>
              (if goos = ''darwin'' then
                 steps
                   [Printf (''['' @ Now w @ ''] Warning: Failed to simulate mouse activity: ''
                            @ err @ ''\<newline>''),
                    Printf (''['' @ Now w @ ''] Troubleshooting: Try 'brew install cliclick' or grant accessibility permissions\<newline>'')]
                   p1
               else
                 Printf (''['' @ Now w @ ''] Warning: Failed to simulate mouse activity: ''
                         @ err @ ''\<newline>'') p1)
          | None \<Rightarrow>
              Printf (''['' @ Now w @ ''] Simulated mouse activity\<newline>'') p1))"

section \<open>The activity loop\<close>

text \<open>
  The \<^verbatim>\<open>for { select { ... } }\<close> of \<^verbatim>\<open>main\<close>, over the cases that \<^verbatim>\<open>select\<close> takes.
  When the listed events are used up the loop is waiting in \<^verbatim>\<open>select\<close> and the process
  is still \<open>Running\<close>; a \<^verbatim>\<open>return\<close> from \<^verbatim>\<open>main\<close> ends the process with status 0.
\<close>

fun event_loop :: "string \<Rightarrow> event list \<Rightarrow> proc \<Rightarrow> proc" where
  "event_loop goos [] p = p"
| "event_loop goos (Signal # evs) p =
     (Println ''\<newline>Shutdown signal received. Stopping keep-alive tool...'' p)
       \<lparr>status := Exited 0\<rparr>"
| "event_loop goos (KeyboardQuit # evs) p =
     (Println ''\<newline>Keyboard quit received. Stopping keep-alive tool...'' p)
       \<lparr>status := Exited 0\<rparr>"
| "event_loop goos (Tick w # evs) p = event_loop goos evs (simulateActivity goos w p)"

text \<open>
  \<^verbatim>\<open>main\<close>: the banner, the platform check (\<^verbatim>\<open>os.Exit(1)\<close> in its \<^verbatim>\<open>default\<close> branch),
  then the loop. \<^verbatim>\<open>defaultInterval\<close> is 30 seconds, which \<^verbatim>\<open>%v\<close> prints as \<^verbatim>\<open>30s\<close>.
\<close>

definition banner :: "build \<Rightarrow> string \<Rightarrow> string \<Rightarrow> proc \<Rightarrow> proc" where
  "banner b goos goarch p =
     steps
       [Println ''Keep-Alive Tool'',
        Println ''==============='',
        Printf (''Version: '' @ Version b @ ''\<newline>''),
        Printf (''Build: '' @ BuildTime b @ '' ('' @ Environment b @ '')\<newline>''),
        Printf (''Platform: '' @ goos @ ''/'' @ goarch @ ''\<newline>''),
        Printf ''Simulating user activity every 30s to prevent screen lock\<newline>'',
        Println ''Press Ctrl+C to stop, or type 'q' and press Enter to quit'',
        Println '''']
       p"

definition main :: "build \<Rightarrow> string \<Rightarrow> string \<Rightarrow> event list \<Rightarrow> proc" where
  "main b goos goarch evs =
    (let p0 = banner b goos goarch proc0 in
     if goos = ''darwin'' then
       event_loop goos evs
         (steps
            [Println ''macOS detected - Using cliclick for mouse simulation'',
             Println ''Note: If mouse movement fails, install cliclick: brew install cliclick'',
             Println '''',
             Println ''Starting keep-alive simulation...'']
            p0)
     else if goos = ''windows'' then
       event_loop goos evs
         (steps
            [Println ''Windows detected - Using PowerShell with Windows API'',
             Println '''',
             Println ''Starting keep-alive simulation...'']
            p0)
     else
       (Printf (''Error: This tool supports macOS and Windows only (detected: '' @ goos
                @ '')\<newline>'') p0)
         \<lparr>status := Exited 1\<rparr>)"

section \<open>The keyboard reader\<close>

text \<open>
  \<^verbatim>\<open>_monitorKeyboard\<close> reads with \<^verbatim>\<open>fmt.Scanln(&input)\<close>, which belongs to Go's standard
  library and not to this repository. It is modelled here after the library's scanner
  for one string operand: skip blanks (an empty line is the error \<^verbatim>\<open>unexpected newline\<close>,
  the end of the input is \<^verbatim>\<open>EOF\<close>), take the runes up to the next space as the word,
  then skip blanks up to the newline or the end of the input; a rune that is not a space
  is the error \<^verbatim>\<open>expected newline\<close> there. The scanner reads \<^verbatim>\<open>os.Stdin\<close> rune by rune and
  gives nothing back: the rune at which it reports \<^verbatim>\<open>expected newline\<close> is consumed and the
  rest of that line stays in the input for the next call.

  The input is the list of runes (code points) the scanner decodes; a Go string is the
  list of its runes, so that \<open>runes ''quit''\<close> is the string \<^verbatim>\<open>"quit"\<close>.
\<close>

type_synonym rune = nat

definition runes :: "string \<Rightarrow> rune list" where
  "runes s = map of_char s"

text \<open>\<^verbatim>\<open>isSpace\<close>: the scanner's table of space runes, all below \<open>1 << 16 = 65536\<close>.\<close>

definition isSpace :: "rune \<Rightarrow> bool" where
  "isSpace r =
    (r < 65536 \<and>
     (9 \<le> r \<and> r \<le> 13 \<or> r = 32 \<or> r = 133 \<or> r = 160 \<or> r = 5760
      \<or> 8192 \<le> r \<and> r \<le> 8202 \<or> 8232 \<le> r \<and> r \<le> 8233 \<or> r = 8239 \<or> r = 8287
      \<or> r = 12288))"

text \<open>Rune 10 is the newline and rune 13 the carriage return.\<close>

fun SkipSpace :: "rune list \<Rightarrow> error option \<times> rune list" where
  "SkipSpace [] = (None, [])"
| "SkipSpace (r # rs) =
    (if r = 13 \<and> (case rs of [] \<Rightarrow> False | n # _ \<Rightarrow> n = 10) then SkipSpace rs
     else if r = 10 then (Some ''unexpected newline'', rs)
     else if \<not> isSpace r then (None, r # rs)
     else SkipSpace rs)"

fun token :: "rune list \<Rightarrow> rune list \<times> rune list" where
  "token [] = ([], [])"
| "token (r # rs) =
    (if \<not> isSpace r then (case token rs of (t, rest) \<Rightarrow> (r # t, rest))
     else ([], r # rs))"

fun expect_newline :: "rune list \<Rightarrow> error option \<times> rune list" where
  "expect_newline [] = (None, [])"
| "expect_newline (r # rs) =
    (if r = 10 then (None, rs)
     else if \<not> isSpace r then (Some ''expected newline'', rs)
     else expect_newline rs)"

text \<open>\<open>Scanln inp\<close> is the string stored in the operand, the error, and the input left.\<close>

definition Scanln :: "rune list \<Rightarrow> rune list \<times> error option \<times> rune list" where
  "Scanln inp =
    (case SkipSpace inp of
       (Some e, rest) \<Rightarrow> ([], Some e, rest)
     | (None, []) \<Rightarrow> ([], Some ''EOF'', [])
     | (None, r # rs) \<Rightarrow>
         (case token (r # rs) of (tok, rest1) \<Rightarrow>
            (case expect_newline rest1 of (e, rest2) \<Rightarrow> (tok, e, rest2))))"

text \<open>
  \<^verbatim>\<open>_monitorKeyboard\<close>. The loop has no exit but the \<^verbatim>\<open>return\<close> after the send, so it is
  run for a number of rounds: \<open>monitorKeyboard n inp\<close> is the reader after at most \<open>n\<close>
  rounds on the input \<open>inp\<close>. \<open>keyboardChan\<close> lists what was sent on the channel, which
  \<^verbatim>\<open>main\<close> makes with room for one value and hands over empty.
\<close>

record reader =
  stdin :: "rune list"
  keyboardChan :: "unit list"
  returned :: bool

fun monitorKeyboard :: "nat \<Rightarrow> rune list \<Rightarrow> reader" where
  "monitorKeyboard 0 inp = \<lparr>stdin = inp, keyboardChan = [], returned = False\<rparr>"
| "monitorKeyboard (Suc n) inp =
    (case Scanln inp of (input, err, rest) \<Rightarrow>
       if err \<noteq> None then monitorKeyboard n rest
       else if input = runes ''q'' \<or> input = runes ''quit'' \<or> input = runes ''exit''
       then \<lparr>stdin = rest, keyboardChan = [()], returned = True\<rparr>
       else monitorKeyboard n rest)"

section \<open>Observations and example inputs\<close>

text \<open>What one call of the strategy writes and runs, started from nothing.\<close>

definition report :: "string \<Rightarrow> world \<Rightarrow> string list" where
  "report goos w = stdout (simulateActivity goos w proc0)"

definition attempt :: "string \<Rightarrow> world \<Rightarrow> cmd list" where
  "attempt goos w = started (simulateActivity goos w proc0)"

text \<open>The case of the \<^verbatim>\<open>select\<close> an event stands for, without what the tick met.\<close>

datatype select_case = SigCase | KeyCase | TickCase

fun case_taken :: "event \<Rightarrow> select_case" where
  "case_taken Signal = SigCase"
| "case_taken KeyboardQuit = KeyCase"
| "case_taken (Tick w) = TickCase"

text \<open>The statements of a script: its lines without their indentation, empty ones dropped.\<close>

fun drop_tabs :: "string \<Rightarrow> string" where
  "drop_tabs [] = []"
| "drop_tabs (c # cs) = (if c = CHR 0x09 then drop_tabs cs else c # cs)"

fun split_lines :: "string \<Rightarrow> string \<Rightarrow> string list" where
  "split_lines acc [] = [acc]"
| "split_lines acc (c # cs) =
    (if c = CHR ''\<newline>'' then acc # split_lines [] cs else split_lines (acc @ [c]) cs)"

definition statements :: "string \<Rightarrow> string list" where
  "statements s = filter (\<lambda>l. l \<noteq> []) (map drop_tabs (split_lines [] s))"

text \<open>A blank is a space rune other than the newline.\<close>

definition blank :: "rune \<Rightarrow> bool" where
  "blank r = (isSpace r \<and> r \<noteq> 10)"

text \<open>
  Example inputs: the build as the source declares it, a world where everything works, one
  where the helper is missing and every command fails, and one where only the helper is
  missing.
\<close>

definition build_dev :: build where
  "build_dev = \<lparr>Version = ''dev'', BuildTime = ''unknown'', Environment = ''dev''\<rparr>"

definition world_ok :: world where
  "world_ok = \<lparr>LookPath = (\<lambda>name. Inr (''/usr/local/bin/'' @ name)),
                Run = (\<lambda>c. None), Now = ''12:00:00''\<rparr>"

definition world_failing :: world where
  "world_failing = \<lparr>LookPath = (\<lambda>name. Inl ''executable file not found in $PATH''),
                     Run = (\<lambda>c. Some ''exit status 1''), Now = ''12:00:30''\<rparr>"

definition world_no_helper :: world where
  "world_no_helper = \<lparr>LookPath = (\<lambda>name. Inl ''executable file not found in $PATH''),
                       Run = (\<lambda>c. None), Now = ''12:01:00''\<rparr>"

section \<open>The strategy's effect on the process\<close>

text \<open>
  One call of the strategy appends what it writes and what it runs and touches nothing
  else; what it appends does not depend on the process it is called in.
\<close>

lemma sa_frame:
  "simulateActivity goos w p =
     p\<lparr>stdout := stdout p @ report goos w, started := started p @ attempt goos w\<rparr>"
  by (simp add: simulateActivity_def report_def attempt_def proc0_def Printf_def steps_def Let_def
           split: sum.split option.split)

lemma sa_status: "status (simulateActivity goos w p) = status p"
  by (subst sa_frame) simp

lemma sa_stdout: "stdout (simulateActivity goos w p) = stdout p @ report goos w"
  by (subst sa_frame) simp

lemma sa_started: "started (simulateActivity goos w p) = started p @ attempt goos w"
  by (subst sa_frame) simp

lemma attempt_darwin:
  "attempt ''darwin'' w =
     [if isl (LookPath w ''cliclick'') then Command ''osascript'' [''-e'', script_darwin]
      else Command ''cliclick'' [''m:+1,+1'', ''w:10'', ''m:-1,-1'']]"
  by (simp add: attempt_def simulateActivity_def proc0_def Printf_def steps_def Let_def
           split: sum.split option.split)

lemma attempt_windows:
  "attempt ''windows'' w = [Command ''powershell'' [''-Command'', script_windows]]"
  by (simp add: attempt_def simulateActivity_def proc0_def Printf_def steps_def Let_def
           split: sum.split option.split)

lemma attempt_other:
  "goos \<noteq> ''darwin'' \<Longrightarrow> goos \<noteq> ''windows'' \<Longrightarrow> attempt goos w = []"
  by (simp add: attempt_def simulateActivity_def proc0_def Printf_def steps_def Let_def)

lemma attempt_length: "length (attempt goos w) = length (attempt goos w')"
proof (cases "goos = ''darwin''")
  case True
  then show ?thesis by (simp add: attempt_darwin)
next
  case False
  then show ?thesis
    by (cases "goos = ''windows''") (simp_all add: attempt_windows attempt_other)
qed

lemma attempt_supported:
  "goos = ''darwin'' \<or> goos = ''windows'' \<Longrightarrow> length (attempt goos w) = 1"
  by (auto simp: attempt_darwin attempt_windows)

lemma statements_darwin:
  "statements script_darwin =
    [''tell application \"System Events\"'',
     ''set currentPos to (get position of mouse)'',
     ''set mouseX to item 1 of currentPos'',
     ''set mouseY to item 2 of currentPos'',
     ''set mouse position to {mouseX + 1, mouseY + 1}'',
     ''delay 0.01'',
     ''set mouse position to {mouseX, mouseY}'',
     ''end tell'']"
  by code_simp

lemma statements_windows:
  "statements script_windows =
    [''Add-Type -TypeDefinition '' @ [CHR 0x27],
     ''using System;'',
     ''using System.Runtime.InteropServices;'',
     ''public class Win32 {'',
     ''[DllImport(\"user32.dll\")]'',
     ''public static extern bool GetCursorPos(out POINT lpPoint);'',
     ''[DllImport(\"user32.dll\")]'',
     ''public static extern bool SetCursorPos(int x, int y);'',
     ''public struct POINT { public int x; public int y; }'',
     ''}'',
     ''';'',
     ''$pos = New-Object Win32+POINT;'',
     ''[Win32]::GetCursorPos([ref]$pos);'',
     ''[Win32]::SetCursorPos($pos.x + 1, $pos.y + 1);'',
     ''Start-Sleep -Milliseconds 10;'',
     ''[Win32]::SetCursorPos($pos.x, $pos.y);'']"
  by code_simp

lemma report_darwin:
  "report ''darwin'' w =
     (case Run w (if isl (LookPath w ''cliclick'') then Command ''osascript'' [''-e'', script_darwin]
                  else Command ''cliclick'' [''m:+1,+1'', ''w:10'', ''m:-1,-1'']) of
        Some err \<Rightarrow>
          [''['' @ Now w @ ''] Warning: Failed to simulate mouse activity: '' @ err @ ''\<newline>'',
           ''['' @ Now w @ ''] Troubleshooting: Try 'brew install cliclick' or grant accessibility permissions\<newline>'']
      | None \<Rightarrow> [''['' @ Now w @ ''] Simulated mouse activity\<newline>''])"
  by (simp add: report_def simulateActivity_def proc0_def Printf_def steps_def Let_def
           split: sum.split option.split)

lemma report_windows:
  "report ''windows'' w =
     (case Run w (Command ''powershell'' [''-Command'', script_windows]) of
        Some err \<Rightarrow>
          [''['' @ Now w @ ''] Warning: Failed to simulate mouse activity: '' @ err @ ''\<newline>'']
      | None \<Rightarrow> [''['' @ Now w @ ''] Simulated mouse activity\<newline>''])"
  by (simp add: report_def simulateActivity_def proc0_def Printf_def steps_def Let_def
           split: sum.split option.split)

section \<open>The loop over ticks\<close>

lemma ticks_status: "status (event_loop goos (map Tick ws) p) = status p"
  by (induction ws arbitrary: p) (simp_all add: sa_status)

lemma ticks_stdout:
  "stdout (event_loop goos (map Tick ws) p) = stdout p @ concat (map (report goos) ws)"
  by (induction ws arbitrary: p) (simp_all add: sa_stdout)

lemma ticks_started:
  "started (event_loop goos (map Tick ws) p) = started p @ concat (map (attempt goos) ws)"
  by (induction ws arbitrary: p) (simp_all add: sa_started)

lemma ticks_append:
  "event_loop goos (map Tick ws @ evs) p = event_loop goos evs (event_loop goos (map Tick ws) p)"
  by (induction ws arbitrary: p) simp_all

lemma stop_event:
  "t = Signal \<or> t = KeyboardQuit \<Longrightarrow> event_loop goos (t # rest) p = event_loop goos [t] p"
  by auto

lemma stop_status:
  "t = Signal \<or> t = KeyboardQuit \<Longrightarrow> status (event_loop goos (t # rest) p) = Exited 0"
  by auto

lemma stop_started:
  "t = Signal \<or> t = KeyboardQuit \<Longrightarrow> started (event_loop goos (t # rest) p) = started p"
  by (auto simp: Println_def Printf_def)

lemma main_supported:
  "goos = ''darwin'' \<or> goos = ''windows'' \<Longrightarrow>
     main b goos goarch evs = event_loop goos evs (main b goos goarch [])"
  by (auto simp: main_def Let_def)

lemma banner_status: "status (banner b goos goarch p) = status p"
  by (simp add: banner_def Println_def Printf_def steps_def)

lemma banner_started: "started (banner b goos goarch p) = started p"
  by (simp add: banner_def Println_def Printf_def steps_def)

lemma main_start_status:
  "goos = ''darwin'' \<or> goos = ''windows'' \<Longrightarrow> status (main b goos goarch []) = Running"
  by (auto simp: main_def Let_def Println_def Printf_def steps_def banner_status proc0_def)

lemma main_start_started: "started (main b goos goarch []) = []"
  by (auto simp: main_def Let_def Println_def Printf_def steps_def banner_started proc0_def)

lemma loop_noninterference:
  "map case_taken evs = map case_taken evs' \<Longrightarrow> status p = status p' \<Longrightarrow>
   length (started p) = length (started p') \<Longrightarrow>
   status (event_loop goos evs p) = status (event_loop goos evs' p') \<and>
   length (started (event_loop goos evs p)) = length (started (event_loop goos evs' p'))"
proof (induction evs arbitrary: evs' p p')
  case Nil
  then show ?case by simp
next
  case (Cons e evs)
  then obtain e' es' where evs': "evs' = e' # es'" and k: "case_taken e = case_taken e'"
    and rest: "map case_taken evs = map case_taken es'"
    by (cases evs') auto
  show ?case
  proof (cases e)
    case Signal
    with k have "e' = Signal" by (cases e') auto
    with Signal evs' Cons.prems show ?thesis by (simp add: Println_def Printf_def)
  next
    case KeyboardQuit
    with k have "e' = KeyboardQuit" by (cases e') auto
    with KeyboardQuit evs' Cons.prems show ?thesis by (simp add: Println_def Printf_def)
  next
    case (Tick w)
    with k obtain w' where e': "e' = Tick w'" by (cases e') auto
    have "status (simulateActivity goos w p) = status (simulateActivity goos w' p')"
      using Cons.prems(2) by (simp add: sa_status)
    moreover have "length (started (simulateActivity goos w p))
                 = length (started (simulateActivity goos w' p'))"
      using Cons.prems(3) attempt_length[of goos w w'] by (simp add: sa_started)
    ultimately show ?thesis
      using Cons.IH[OF rest] Tick e' evs' by simp
  qed
qed

section \<open>The scanner on one line\<close>

lemma isSpace_newline: "isSpace 10"
  by (simp add: isSpace_def)

lemma isSpace_return: "isSpace 13"
  by (simp add: isSpace_def)

lemma SkipSpace_word: "\<not> isSpace r \<Longrightarrow> SkipSpace (r # rs) = (None, r # rs)"
  using isSpace_newline isSpace_return by (cases "r = 10") (auto split: list.splits)

lemma SkipSpace_blank: "blank a \<Longrightarrow> SkipSpace (a # rs) = SkipSpace rs"
  by (simp add: blank_def)

lemma SkipSpace_blanks:
  "list_all blank pre \<Longrightarrow> \<not> isSpace r \<Longrightarrow> SkipSpace (pre @ r # rs) = (None, r # rs)"
proof (induction pre)
  case Nil
  then show ?case using SkipSpace_word by simp
next
  case (Cons a pre)
  then show ?case using SkipSpace_blank[of a] by simp
qed

lemma token_word:
  "list_all (\<lambda>r. \<not> isSpace r) w \<Longrightarrow> isSpace s \<Longrightarrow> token (w @ s # rs) = (w, s # rs)"
  by (induction w) auto

lemma expect_newline_blanks:
  "list_all blank post \<Longrightarrow> expect_newline (post @ 10 # rest) = (None, rest)"
  by (induction post) (auto simp: blank_def)

lemma expect_newline_extra:
  "list_all blank sep \<Longrightarrow> \<not> isSpace r \<Longrightarrow>
   expect_newline (sep @ r # rs) = (Some ''expected newline'', rs)"
proof (induction sep)
  case Nil
  then show ?case using isSpace_newline by (cases "r = 10") auto
next
  case (Cons a sep)
  then show ?case by (auto simp: blank_def)
qed

lemma Scanln_single_word:
  assumes "list_all blank pre" "list_all blank post" "w \<noteq> []"
    and "list_all (\<lambda>r. \<not> isSpace r) w"
  shows "Scanln (pre @ w @ post @ 10 # rest) = (w, None, rest)"
proof -
  from assms(3) obtain r w' where w: "w = r # w'" by (cases w) auto
  with assms(4) have r: "\<not> isSpace r" by simp
  have sk: "SkipSpace (pre @ w @ post @ 10 # rest) = (None, r # w' @ post @ 10 # rest)"
    using SkipSpace_blanks[OF assms(1) r] w by simp
  obtain s ss where ps: "post @ 10 # rest = s # ss" and s: "isSpace s"
    using assms(2) by (cases post) (auto simp: blank_def isSpace_newline)
  have tk: "token (r # w' @ post @ 10 # rest) = (w, post @ 10 # rest)"
    using token_word[OF assms(4) s, of ss] w ps by simp
  show ?thesis
    using sk tk expect_newline_blanks[OF assms(2)] by (simp add: Scanln_def)
qed

lemma Scanln_extra_word:
  assumes "w \<noteq> []" "list_all (\<lambda>r. \<not> isSpace r) w" "sep \<noteq> []" "list_all blank sep"
    and "\<not> isSpace r"
  shows "Scanln (w @ sep @ r # rs) = (w, Some ''expected newline'', rs)"
proof -
  from assms(1) obtain a w' where w: "w = a # w'" by (cases w) auto
  with assms(2) have a: "\<not> isSpace a" by simp
  have sk: "SkipSpace (w @ sep @ r # rs) = (None, a # w' @ sep @ r # rs)"
    using SkipSpace_word[OF a] w by simp
  obtain s ss where ps: "sep = s # ss" and s: "isSpace s"
    using assms(3,4) by (cases sep) (auto simp: blank_def)
  have tk: "token (a # w' @ sep @ r # rs) = (w, sep @ r # rs)"
    using token_word[OF assms(2) s, of "ss @ r # rs"] w ps by simp
  show ?thesis
    using sk tk expect_newline_extra[OF assms(4,5)] by (simp add: Scanln_def)
qed

lemma Scanln_closed: "Scanln [] = ([], Some ''EOF'', [])"
  by (simp add: Scanln_def)

lemma Scanln_empty_line: "Scanln (10 # rest) = ([], Some ''unexpected newline'', rest)"
  by (simp add: Scanln_def split: list.splits)

lemma reader_closed_input:
  "monitorKeyboard n [] = \<lparr>stdin = [], keyboardChan = [], returned = False\<rparr>"
  by (induction n) (simp_all add: Scanln_closed)

lemma reader_sends: 
  "keyboardChan (monitorKeyboard n inp) = (if returned (monitorKeyboard n inp) then [()] else [])"
proof (induction n arbitrary: inp)
  case 0
  show ?case by simp
next
  case (Suc n)
  obtain input err rest where sc: "Scanln inp = (input, err, rest)"
    by (cases "Scanln inp") auto
  show ?case using Suc[of rest] sc by simp
qed

lemma reader_stays_returned:
  "returned (monitorKeyboard n inp) \<Longrightarrow> monitorKeyboard (n + k) inp = monitorKeyboard n inp"
proof (induction n arbitrary: inp)
  case 0
  then show ?case by simp
next
  case (Suc n)
  obtain input err rest where sc: "Scanln inp = (input, err, rest)"
    by (cases "Scanln inp") auto
  show ?case using Suc.IH[of rest] Suc.prems sc by (auto split: if_splits)
qed

lemma reader_error_continues:
  "fst (snd (Scanln inp)) \<noteq> None \<Longrightarrow>
   monitorKeyboard (Suc n) inp = monitorKeyboard n (snd (snd (Scanln inp)))"
  by (cases "Scanln inp") auto

section \<open>Startup and the loop\<close>

text \<open>
  Claim C1. On a platform other than \<^verbatim>\<open>darwin\<close> and \<^verbatim>\<open>windows\<close> the program writes the
  banner and then the error line naming the platform it found, and ends with status 1;
  it runs no command and writes nothing else whatever events are pending, so no tick is
  ever served. On \<^verbatim>\<open>darwin\<close> and on \<^verbatim>\<open>windows\<close> the process is running when the loop
  starts, and the run is the loop over the events from there.
\<close>

theorem startup_platform_check:
  "(goos \<noteq> ''darwin'' \<and> goos \<noteq> ''windows'' \<longrightarrow>
      status (main b goos goarch evs) = Exited 1
      \<and> started (main b goos goarch evs) = []
      \<and> stdout (main b goos goarch evs) =
          stdout (banner b goos goarch proc0)
          @ [''Error: This tool supports macOS and Windows only (detected: '' @ goos
             @ '')\<newline>''])
   \<and> (goos = ''darwin'' \<or> goos = ''windows'' \<longrightarrow>
      status (main b goos goarch []) = Running
      \<and> main b goos goarch evs = event_loop goos evs (main b goos goarch []))"
proof (intro conjI impI)
  assume u: "goos \<noteq> ''darwin'' \<and> goos \<noteq> ''windows''"
  then show "status (main b goos goarch evs) = Exited 1"
    by (simp add: main_def Let_def)
  from u show "started (main b goos goarch evs) = []"
    by (simp add: main_def Let_def Printf_def banner_started proc0_def)
  from u show "stdout (main b goos goarch evs) =
      stdout (banner b goos goarch proc0)
      @ [''Error: This tool supports macOS and Windows only (detected: '' @ goos
         @ '')\<newline>'']"
    by (simp add: main_def Let_def Printf_def)
next
  assume s: "goos = ''darwin'' \<or> goos = ''windows''"
  then show "status (main b goos goarch []) = Running" by (rule main_start_status)
  from s show "main b goos goarch evs = event_loop goos evs (main b goos goarch [])"
    by (rule main_supported)
qed

theorem startup_platform_check_witness:
  "''linux'' \<noteq> ''darwin'' \<and> ''linux'' \<noteq> ''windows''
   \<and> status (main build_dev ''linux'' ''amd64'' [Tick world_ok, Signal]) = Exited 1
   \<and> started (main build_dev ''linux'' ''amd64'' [Tick world_ok, Signal]) = []
   \<and> stdout (main build_dev ''linux'' ''amd64'' [Tick world_ok, Signal]) =
       stdout (banner build_dev ''linux'' ''amd64'' proc0)
       @ [''Error: This tool supports macOS and Windows only (detected: linux)\<newline>'']
   \<and> status (main build_dev ''darwin'' ''arm64'' []) = Running
   \<and> main build_dev ''darwin'' ''arm64'' [Tick world_ok, Signal] =
       event_loop ''darwin'' [Tick world_ok, Signal] (main build_dev ''darwin'' ''arm64'' [])"
  using startup_platform_check [of "''linux''" build_dev "''amd64''" "[Tick world_ok, Signal]"]
        startup_platform_check [of "''darwin''" build_dev "''arm64''" "[Tick world_ok, Signal]"]
  by simp

text \<open>
  Claim C2. On a supported platform, while only ticks arrive the process keeps running,
  each tick runs exactly one command, and the commands and the console lines of the ticks
  follow one another in the order of the ticks, each tick's lines together. Once a signal
  or a keyboard quit is taken the process ends with status 0: the events after it change
  nothing, and no command is run beyond those of the ticks before it.
\<close>

theorem loop_runs_one_invocation_per_tick:
  assumes "goos = ''darwin'' \<or> goos = ''windows''" and "t = Signal \<or> t = KeyboardQuit"
  shows "status (main b goos goarch (map Tick ws)) = Running
    \<and> length (started (main b goos goarch (map Tick ws))) = length ws
    \<and> started (main b goos goarch (map Tick ws)) = concat (map (attempt goos) ws)
    \<and> stdout (main b goos goarch (map Tick ws)) =
        stdout (main b goos goarch []) @ concat (map (report goos) ws)
    \<and> status (main b goos goarch (map Tick ws @ t # rest)) = Exited 0
    \<and> main b goos goarch (map Tick ws @ t # rest) = main b goos goarch (map Tick ws @ [t])
    \<and> started (main b goos goarch (map Tick ws @ t # rest)) =
        started (main b goos goarch (map Tick ws))"
proof -
  let ?m = "main b goos goarch"
  have m: "\<And>evs. ?m evs = event_loop goos evs (?m [])"
    using assms(1) by (rule main_supported)
  have st: "started (?m (map Tick ws)) = concat (map (attempt goos) ws)"
    by (subst m) (simp add: ticks_started main_start_started)
  have one: "length (concat (map (attempt goos) ws)) = length ws"
    using attempt_supported[OF assms(1)] by (induction ws) simp_all
  have c1: "status (?m (map Tick ws)) = Running"
    by (subst m) (simp add: ticks_status main_start_status[OF assms(1)])
  have c4: "stdout (?m (map Tick ws)) = stdout (?m []) @ concat (map (report goos) ws)"
    by (subst m) (simp add: ticks_stdout)
  have c5: "status (?m (map Tick ws @ t # rest)) = Exited 0"
    by (subst m) (simp add: ticks_append stop_status[OF assms(2)])
  have c6: "?m (map Tick ws @ t # rest) = ?m (map Tick ws @ [t])"
    by (subst m, subst (2) m) (simp add: ticks_append stop_event[OF assms(2), of _ rest])
  have c7: "started (?m (map Tick ws @ t # rest)) = started (?m (map Tick ws))"
    by (subst m, subst (2) m) (simp add: ticks_append stop_started[OF assms(2)])
  from c1 st one c4 c5 c6 c7 show ?thesis by simp
qed

theorem loop_runs_one_invocation_per_tick_witness:
  "(''darwin'' = ''darwin'' \<or> ''darwin'' = ''windows'') \<and> (Signal = Signal \<or> Signal = KeyboardQuit)
   \<and> status (main build_dev ''darwin'' ''arm64'' (map Tick [world_ok, world_failing])) = Running
   \<and> length (started (main build_dev ''darwin'' ''arm64'' (map Tick [world_ok, world_failing])))
       = length [world_ok, world_failing]
   \<and> status (main build_dev ''darwin'' ''arm64''
         (map Tick [world_ok, world_failing] @ Signal # [Tick world_ok])) = Exited 0
   \<and> main build_dev ''darwin'' ''arm64''
         (map Tick [world_ok, world_failing] @ Signal # [Tick world_ok]) =
       main build_dev ''darwin'' ''arm64'' (map Tick [world_ok, world_failing] @ [Signal])
   \<and> started (main build_dev ''darwin'' ''arm64''
         (map Tick [world_ok, world_failing] @ Signal # [Tick world_ok])) =
       started (main build_dev ''darwin'' ''arm64'' (map Tick [world_ok, world_failing]))"
proof -
  have h1: "''darwin'' = ''darwin'' \<or> ''darwin'' = ''windows''" by simp
  have h2: "Signal = Signal \<or> Signal = KeyboardQuit" by simp
  show ?thesis
    using h1 h2 loop_runs_one_invocation_per_tick
      [OF h1 h2, of build_dev "''arm64''" "[world_ok, world_failing]" "[Tick world_ok]"]
    by blast
qed

text \<open>
  Claim C3. A call of the strategy never changes the status of the process, whatever the
  lookup and the command return. So two runs that take the same cases of the
  \<^verbatim>\<open>select\<close> in the same order, and differ only in what their ticks met (failures in
  one, successes in the other), end in the same status and have run the same number of
  commands: a failed tick neither stops the loop nor keeps a later tick from running the
  platform logic again.
\<close>

theorem tick_errors_do_not_stop_the_loop:
  "status (simulateActivity goos w p) = status p
   \<and> event_loop goos (Tick w # rest) p =
       event_loop goos rest
         (p\<lparr>stdout := stdout p @ report goos w, started := started p @ attempt goos w\<rparr>)
   \<and> (map case_taken evs = map case_taken evs' \<longrightarrow>
        status (main b goos goarch evs) = status (main b goos goarch evs')
        \<and> length (started (main b goos goarch evs)) = length (started (main b goos goarch evs')))"
proof (intro conjI impI)
  show "status (simulateActivity goos w p) = status p" by (rule sa_status)
next
  show "event_loop goos (Tick w # rest) p =
       event_loop goos rest
         (p\<lparr>stdout := stdout p @ report goos w, started := started p @ attempt goos w\<rparr>)"
    using sa_frame[of goos w p] by simp
next
  assume k: "map case_taken evs = map case_taken evs'"
  show "status (main b goos goarch evs) = status (main b goos goarch evs')"
  proof (cases "goos = ''darwin'' \<or> goos = ''windows''")
    case True
    show ?thesis
      using loop_noninterference[OF k, of "main b goos goarch []" "main b goos goarch []" goos]
      by (simp add: main_supported[OF True, of b goarch evs] main_supported[OF True, of b goarch evs'])
  next
    case False
    then show ?thesis by (simp add: main_def Let_def)
  qed
  show "length (started (main b goos goarch evs)) = length (started (main b goos goarch evs'))"
  proof (cases "goos = ''darwin'' \<or> goos = ''windows''")
    case True
    show ?thesis
      using loop_noninterference[OF k, of "main b goos goarch []" "main b goos goarch []" goos]
      by (simp add: main_supported[OF True, of b goarch evs] main_supported[OF True, of b goarch evs'])
  next
    case False
    then show ?thesis by (simp add: main_def Let_def)
  qed
qed

theorem tick_errors_do_not_stop_the_loop_witness:
  "status (simulateActivity ''windows'' world_failing proc0) = status proc0
   \<and> event_loop ''windows'' (Tick world_failing # [Tick world_ok]) proc0 =
       event_loop ''windows'' [Tick world_ok]
         (proc0\<lparr>stdout := stdout proc0 @ report ''windows'' world_failing,
                started := started proc0 @ attempt ''windows'' world_failing\<rparr>)
   \<and> map case_taken [Tick world_failing, Tick world_failing, KeyboardQuit]
       = map case_taken [Tick world_ok, Tick world_ok, KeyboardQuit]
   \<and> status (main build_dev ''windows'' ''amd64'' [Tick world_failing, Tick world_failing, KeyboardQuit])
       = status (main build_dev ''windows'' ''amd64'' [Tick world_ok, Tick world_ok, KeyboardQuit])
   \<and> length (started (main build_dev ''windows'' ''amd64'' [Tick world_failing, Tick world_failing, KeyboardQuit]))
       = length (started (main build_dev ''windows'' ''amd64'' [Tick world_ok, Tick world_ok, KeyboardQuit]))"
  using tick_errors_do_not_stop_the_loop
    [of "''windows''" world_failing proc0 "[Tick world_ok]"
        "[Tick world_failing, Tick world_failing, KeyboardQuit]"
        "[Tick world_ok, Tick world_ok, KeyboardQuit]" build_dev "''amd64''"]
  by simp

section \<open>The commands of the two platforms\<close>

text \<open>
  Claim C5. On \<^verbatim>\<open>darwin\<close> one call of the strategy runs exactly one command: when the
  lookup of \<^verbatim>\<open>cliclick\<close> succeeds, \<^verbatim>\<open>cliclick\<close> with the arguments \<^verbatim>\<open>m:+1,+1\<close>, \<^verbatim>\<open>w:10\<close>,
  \<^verbatim>\<open>m:-1,-1\<close>; when it fails, \<^verbatim>\<open>osascript -e\<close> with the script whose statements read the
  pointer position, set it one unit further on both axes, wait, and set it back.
\<close>

theorem darwin_strategy_command:
  "started (simulateActivity ''darwin'' w p) =
     started p @
     [if isl (LookPath w ''cliclick'') then Command ''osascript'' [''-e'', script_darwin]
      else Command ''cliclick'' [''m:+1,+1'', ''w:10'', ''m:-1,-1'']]
   \<and> statements script_darwin =
      [''tell application \"System Events\"'',
       ''set currentPos to (get position of mouse)'',
       ''set mouseX to item 1 of currentPos'',
       ''set mouseY to item 2 of currentPos'',
       ''set mouse position to {mouseX + 1, mouseY + 1}'',
       ''delay 0.01'',
       ''set mouse position to {mouseX, mouseY}'',
       ''end tell'']"
  using statements_darwin by (simp add: sa_started attempt_darwin)

text \<open>
  Claim C6. On \<^verbatim>\<open>windows\<close> one call of the strategy runs exactly one command:
  \<^verbatim>\<open>powershell -Command\<close> with the script that declares \<^verbatim>\<open>GetCursorPos\<close> and
  \<^verbatim>\<open>SetCursorPos\<close>, reads the position, sets it one unit further on both axes, sleeps
  10 milliseconds, and sets it back.
\<close>

theorem windows_strategy_command:
  "started (simulateActivity ''windows'' w p) =
     started p @ [Command ''powershell'' [''-Command'', script_windows]]
   \<and> statements script_windows =
      [''Add-Type -TypeDefinition '' @ [CHR 0x27],
       ''using System;'',
       ''using System.Runtime.InteropServices;'',
       ''public class Win32 {'',
       ''[DllImport(\"user32.dll\")]'',
       ''public static extern bool GetCursorPos(out POINT lpPoint);'',
       ''[DllImport(\"user32.dll\")]'',
       ''public static extern bool SetCursorPos(int x, int y);'',
       ''public struct POINT { public int x; public int y; }'',
       ''}'',
       ''';'',
       ''$pos = New-Object Win32+POINT;'',
       ''[Win32]::GetCursorPos([ref]$pos);'',
       ''[Win32]::SetCursorPos($pos.x + 1, $pos.y + 1);'',
       ''Start-Sleep -Milliseconds 10;'',
       ''[Win32]::SetCursorPos($pos.x, $pos.y);'']"
  using statements_windows by (simp add: sa_started attempt_windows)

text \<open>
  Claim C7. The strategy keeps nothing between calls: a call appends its report and its
  command to the process and its effect does not depend on the process before it. So
  \<open>n\<close> ticks that meet the same world write the same report \<open>n\<close> times and run the same
  command \<open>n\<close> times; on \<^verbatim>\<open>darwin\<close> the command of each tick follows from the lookup of
  \<^verbatim>\<open>cliclick\<close> made at that tick; \<open>n\<close> ticks with a missing helper and a failing
  command write the same two lines \<open>n\<close> times; and a tick at which the helper is missing
  leaves the next tick, at which it is there again, to use it.
\<close>

theorem strategy_is_stateless:
  "simulateActivity goos w p =
     p\<lparr>stdout := stdout p @ report goos w, started := started p @ attempt goos w\<rparr>
   \<and> stdout (event_loop goos (map Tick (replicate n w)) p) =
       stdout p @ concat (replicate n (report goos w))
   \<and> started (event_loop goos (map Tick (replicate n w)) p) =
       started p @ concat (replicate n (attempt goos w))
   \<and> started (event_loop ''darwin'' (map Tick ws) p) =
       started p @
       map (\<lambda>w. if isl (LookPath w ''cliclick'') then Command ''osascript'' [''-e'', script_darwin]
                 else Command ''cliclick'' [''m:+1,+1'', ''w:10'', ''m:-1,-1'']) ws
   \<and> stdout (event_loop ''darwin'' (map Tick (replicate n world_failing)) proc0) =
       concat (replicate n
         [''[12:00:30] Warning: Failed to simulate mouse activity: exit status 1\<newline>'',
          ''[12:00:30] Troubleshooting: Try 'brew install cliclick' or grant accessibility permissions\<newline>''])
   \<and> started (event_loop ''darwin'' (map Tick [world_ok, world_no_helper, world_ok]) proc0) =
       [Command ''cliclick'' [''m:+1,+1'', ''w:10'', ''m:-1,-1''],
        Command ''osascript'' [''-e'', script_darwin],
        Command ''cliclick'' [''m:+1,+1'', ''w:10'', ''m:-1,-1'']]"
proof (intro conjI)
  show "simulateActivity goos w p =
     p\<lparr>stdout := stdout p @ report goos w, started := started p @ attempt goos w\<rparr>"
    by (rule sa_frame)
  show "stdout (event_loop goos (map Tick (replicate n w)) p) =
       stdout p @ concat (replicate n (report goos w))"
    using ticks_stdout[of goos "replicate n w" p] by simp
  show "started (event_loop goos (map Tick (replicate n w)) p) =
       started p @ concat (replicate n (attempt goos w))"
    using ticks_started[of goos "replicate n w" p] by simp
  have "concat (map (attempt ''darwin'') ws) =
       map (\<lambda>w. if isl (LookPath w ''cliclick'') then Command ''osascript'' [''-e'', script_darwin]
                 else Command ''cliclick'' [''m:+1,+1'', ''w:10'', ''m:-1,-1'']) ws"
    by (induction ws) (simp_all add: attempt_darwin)
  then show "started (event_loop ''darwin'' (map Tick ws) p) =
       started p @
       map (\<lambda>w. if isl (LookPath w ''cliclick'') then Command ''osascript'' [''-e'', script_darwin]
                 else Command ''cliclick'' [''m:+1,+1'', ''w:10'', ''m:-1,-1'']) ws"
    by (simp add: ticks_started)
  have "report ''darwin'' world_failing =
         [''[12:00:30] Warning: Failed to simulate mouse activity: exit status 1\<newline>'',
          ''[12:00:30] Troubleshooting: Try 'brew install cliclick' or grant accessibility permissions\<newline>'']"
    by (simp add: report_darwin world_failing_def)
  then show "stdout (event_loop ''darwin'' (map Tick (replicate n world_failing)) proc0) =
       concat (replicate n
         [''[12:00:30] Warning: Failed to simulate mouse activity: exit status 1\<newline>'',
          ''[12:00:30] Troubleshooting: Try 'brew install cliclick' or grant accessibility permissions\<newline>''])"
    using ticks_stdout[of "''darwin''" "replicate n world_failing" proc0]
    by (simp add: proc0_def)
  show "started (event_loop ''darwin'' (map Tick [world_ok, world_no_helper, world_ok]) proc0) =
       [Command ''cliclick'' [''m:+1,+1'', ''w:10'', ''m:-1,-1''],
        Command ''osascript'' [''-e'', script_darwin],
        Command ''cliclick'' [''m:+1,+1'', ''w:10'', ''m:-1,-1'']]"
    using ticks_started[of "''darwin''" "[world_ok, world_no_helper, world_ok]" proc0]
    by (simp add: attempt_darwin world_ok_def world_no_helper_def proc0_def)
qed

section \<open>The report of a tick\<close>

text \<open>
  Claim C9, as amended. A call of the strategy appends its report to the console. On
  \<^verbatim>\<open>darwin\<close> a failed command is reported by a warning line with the time and the error,
  followed by a troubleshooting line with the time and the hint; on \<^verbatim>\<open>windows\<close> a
  failed command is reported by the warning line alone; on both a command that succeeds
  is reported by one line with the time.
\<close>

theorem tick_report_per_platform:
  "stdout (simulateActivity goos w p) = stdout p @ report goos w
   \<and> report ''darwin'' w =
     (case Run w (if isl (LookPath w ''cliclick'') then Command ''osascript'' [''-e'', script_darwin]
                  else Command ''cliclick'' [''m:+1,+1'', ''w:10'', ''m:-1,-1'']) of
        Some err \<Rightarrow>
          [''['' @ Now w @ ''] Warning: Failed to simulate mouse activity: '' @ err @ ''\<newline>'',
           ''['' @ Now w @ ''] Troubleshooting: Try 'brew install cliclick' or grant accessibility permissions\<newline>'']
      | None \<Rightarrow> [''['' @ Now w @ ''] Simulated mouse activity\<newline>''])
   \<and> report ''windows'' w =
     (case Run w (Command ''powershell'' [''-Command'', script_windows]) of
        Some err \<Rightarrow>
          [''['' @ Now w @ ''] Warning: Failed to simulate mouse activity: '' @ err @ ''\<newline>'']
      | None \<Rightarrow> [''['' @ Now w @ ''] Simulated mouse activity\<newline>''])"
  using report_darwin[of w] report_windows[of w] sa_stdout[of goos w p] by blast

text \<open>
  Claim C9 as stated fails on \<^verbatim>\<open>windows\<close>: when the command fails, the whole report is
  the warning line, which holds the time and the error and no hint.
\<close>

theorem windows_failure_report_has_no_hint:
  "Run world_failing (Command ''powershell'' [''-Command'', script_windows]) = Some ''exit status 1''
   \<and> stdout (simulateActivity ''windows'' world_failing proc0) =
       [''[12:00:30] Warning: Failed to simulate mouse activity: exit status 1\<newline>'']"
  by (simp add: sa_stdout report_windows world_failing_def proc0_def)

section \<open>The keyboard reader's rounds\<close>

text \<open>
  Claim C4, as amended. On a line that holds one word, with blanks before and after it
  or none, the round reads the word itself: it sends on the channel and returns when the
  word is \<^verbatim>\<open>q\<close>, \<^verbatim>\<open>quit\<close> or \<^verbatim>\<open>exit\<close>, compared rune for rune, and goes on with the next
  line for any other word.
\<close>

theorem quit_word_matching:
  assumes "list_all blank pre" and "list_all blank post" and "w \<noteq> []"
    and "list_all (\<lambda>r. \<not> isSpace r) w"
  shows "monitorKeyboard (Suc n) (pre @ w @ post @ 10 # rest) =
     (if w = runes ''q'' \<or> w = runes ''quit'' \<or> w = runes ''exit''
      then \<lparr>stdin = rest, keyboardChan = [()], returned = True\<rparr>
      else monitorKeyboard n rest)"
  using Scanln_single_word[OF assms] by simp

theorem quit_word_matching_witness:
  "list_all blank [] \<and> list_all blank (runes '' '')
   \<and> runes ''Q'' \<noteq> [] \<and> list_all (\<lambda>r. \<not> isSpace r) (runes ''Q'')
   \<and> monitorKeyboard (Suc 0) (runes ''Q'' @ [10]) = monitorKeyboard 0 []
   \<and> runes ''Quit'' \<noteq> [] \<and> list_all (\<lambda>r. \<not> isSpace r) (runes ''Quit'')
   \<and> monitorKeyboard (Suc 0) (runes ''Quit'' @ runes '' '' @ [10]) = monitorKeyboard 0 []
   \<and> runes ''exitnow'' \<noteq> [] \<and> list_all (\<lambda>r. \<not> isSpace r) (runes ''exitnow'')
   \<and> monitorKeyboard (Suc 0) (runes ''exitnow'' @ [10]) = monitorKeyboard 0 []
   \<and> runes ''q'' \<noteq> [] \<and> list_all (\<lambda>r. \<not> isSpace r) (runes ''q'')
   \<and> monitorKeyboard (Suc 0) (runes ''q'' @ [10]) =
       \<lparr>stdin = [], keyboardChan = [()], returned = True\<rparr>
   \<and> runes ''quit'' \<noteq> [] \<and> list_all (\<lambda>r. \<not> isSpace r) (runes ''quit'')
   \<and> monitorKeyboard (Suc 0) (runes ''quit'' @ [10]) =
       \<lparr>stdin = [], keyboardChan = [()], returned = True\<rparr>
   \<and> runes ''exit'' \<noteq> [] \<and> list_all (\<lambda>r. \<not> isSpace r) (runes ''exit'')
   \<and> monitorKeyboard (Suc 0) (runes ''exit'' @ [10]) =
       \<lparr>stdin = [], keyboardChan = [()], returned = True\<rparr>"
proof -
  have b0: "list_all blank []" by simp
  have b1: "list_all blank (runes '' '')" by (simp add: runes_def blank_def isSpace_def)
  have n1: "runes ''Q'' \<noteq> []" and w1: "list_all (\<lambda>r. \<not> isSpace r) (runes ''Q'')"
    by (simp_all add: runes_def isSpace_def)
  have n2: "runes ''Quit'' \<noteq> []" and w2: "list_all (\<lambda>r. \<not> isSpace r) (runes ''Quit'')"
    by (simp_all add: runes_def isSpace_def)
  have n3: "runes ''exitnow'' \<noteq> []" and w3: "list_all (\<lambda>r. \<not> isSpace r) (runes ''exitnow'')"
    by (simp_all add: runes_def isSpace_def)
  have n4: "runes ''q'' \<noteq> []" and w4: "list_all (\<lambda>r. \<not> isSpace r) (runes ''q'')"
    by (simp_all add: runes_def isSpace_def)
  have n5: "runes ''quit'' \<noteq> []" and w5: "list_all (\<lambda>r. \<not> isSpace r) (runes ''quit'')"
    by (simp_all add: runes_def isSpace_def)
  have n6: "runes ''exit'' \<noteq> []" and w6: "list_all (\<lambda>r. \<not> isSpace r) (runes ''exit'')"
    by (simp_all add: runes_def isSpace_def)
  have d: "runes ''Q'' \<noteq> runes ''q'' \<and> runes ''Q'' \<noteq> runes ''quit'' \<and> runes ''Q'' \<noteq> runes ''exit''
         \<and> runes ''Quit'' \<noteq> runes ''q'' \<and> runes ''Quit'' \<noteq> runes ''quit''
         \<and> runes ''Quit'' \<noteq> runes ''exit''
         \<and> runes ''exitnow'' \<noteq> runes ''q'' \<and> runes ''exitnow'' \<noteq> runes ''quit''
         \<and> runes ''exitnow'' \<noteq> runes ''exit''"
    by (simp add: runes_def)
  show ?thesis
    using b0 b1 n1 w1 n2 w2 n3 w3 n4 w4 n5 w5 n6 w6 d
      quit_word_matching[OF b0 b0 n1 w1, of 0 "[]"]
      quit_word_matching[OF b0 b1 n2 w2, of 0 "[]"]
      quit_word_matching[OF b0 b0 n3 w3, of 0 "[]"]
      quit_word_matching[OF b0 b0 n4 w4, of 0 "[]"]
      quit_word_matching[OF b0 b0 n5 w5, of 0 "[]"]
      quit_word_matching[OF b0 b0 n6 w6, of 0 "[]"]
    by simp
qed

text \<open>
  Claim C4 as stated fails: the line \<^verbatim>\<open>q\<close> followed by a space is none of the three
  tokens, and the reader quits on it.
\<close>

theorem trailing_blank_line_quits:
  "runes ''q '' \<noteq> runes ''q'' \<and> runes ''q '' \<noteq> runes ''quit'' \<and> runes ''q '' \<noteq> runes ''exit''
   \<and> monitorKeyboard 1 (runes ''q \<newline>'') =
       \<lparr>stdin = [], keyboardChan = [()], returned = True\<rparr>"
  by (simp add: Scanln_def runes_def isSpace_def)

text \<open>
  Claim C8. After any number of rounds the reader has sent at most once, and it has sent
  exactly when it has returned; once it has returned, further rounds change nothing: it
  reads no more input. A round whose read reports an error sends nothing and the reader
  goes on with the input left. The reads on a closed input, on an empty line and on a
  line with a second word all report an error, and on a closed input the reader never
  sends and never returns.
\<close>

theorem reader_signals_once_and_survives_errors:
  "length (keyboardChan (monitorKeyboard n inp)) \<le> 1
   \<and> returned (monitorKeyboard n inp) = (keyboardChan (monitorKeyboard n inp) = [()])
   \<and> (returned (monitorKeyboard n inp) \<longrightarrow>
        monitorKeyboard (n + k) inp = monitorKeyboard n inp)
   \<and> (fst (snd (Scanln inp)) \<noteq> None \<longrightarrow>
        monitorKeyboard (Suc n) inp = monitorKeyboard n (snd (snd (Scanln inp))))
   \<and> Scanln [] = ([], Some ''EOF'', [])
   \<and> monitorKeyboard n [] = \<lparr>stdin = [], keyboardChan = [], returned = False\<rparr>
   \<and> Scanln (10 # rest) = ([], Some ''unexpected newline'', rest)
   \<and> (w \<noteq> [] \<and> list_all (\<lambda>r. \<not> isSpace r) w \<and> sep \<noteq> [] \<and> list_all blank sep \<and> \<not> isSpace r \<longrightarrow>
        Scanln (w @ sep @ r # rs) = (w, Some ''expected newline'', rs))"
proof (intro conjI impI)
  show "length (keyboardChan (monitorKeyboard n inp)) \<le> 1"
    by (simp add: reader_sends)
  show "returned (monitorKeyboard n inp) = (keyboardChan (monitorKeyboard n inp) = [()])"
    by (simp add: reader_sends)
  show "monitorKeyboard (n + k) inp = monitorKeyboard n inp" if "returned (monitorKeyboard n inp)"
    using that by (rule reader_stays_returned)
  show "monitorKeyboard (Suc n) inp = monitorKeyboard n (snd (snd (Scanln inp)))"
    if "fst (snd (Scanln inp)) \<noteq> None"
    using that by (rule reader_error_continues)
  show "Scanln [] = ([], Some ''EOF'', [])" by (rule Scanln_closed)
  show "monitorKeyboard n [] = \<lparr>stdin = [], keyboardChan = [], returned = False\<rparr>"
    by (rule reader_closed_input)
  show "Scanln (10 # rest) = ([], Some ''unexpected newline'', rest)"
    by (rule Scanln_empty_line)
  show "Scanln (w @ sep @ r # rs) = (w, Some ''expected newline'', rs)"
    if "w \<noteq> [] \<and> list_all (\<lambda>r. \<not> isSpace r) w \<and> sep \<noteq> [] \<and> list_all blank sep \<and> \<not> isSpace r"
    using that Scanln_extra_word by blast
qed

theorem reader_signals_once_and_survives_errors_witness:
  "returned (monitorKeyboard 1 (runes ''q\<newline>more''))
   \<and> monitorKeyboard (1 + 2) (runes ''q\<newline>more'') = monitorKeyboard 1 (runes ''q\<newline>more'')
   \<and> fst (snd (Scanln (runes ''q q\<newline>''))) \<noteq> None
   \<and> monitorKeyboard (Suc 1) (runes ''q q\<newline>'') =
       monitorKeyboard 1 (snd (snd (Scanln (runes ''q q\<newline>''))))
   \<and> runes ''q'' \<noteq> [] \<and> list_all (\<lambda>r. \<not> isSpace r) (runes ''q'')
   \<and> runes '' '' \<noteq> [] \<and> list_all blank (runes '' '') \<and> \<not> isSpace 113
   \<and> Scanln (runes ''q'' @ runes '' '' @ 113 # runes ''\<newline>'') =
       (runes ''q'', Some ''expected newline'', runes ''\<newline>'')"
proof -
  have r: "returned (monitorKeyboard 1 (runes ''q\<newline>more''))"
    by (simp add: Scanln_def runes_def isSpace_def)
  have e: "fst (snd (Scanln (runes ''q q\<newline>''))) \<noteq> None"
    by (simp add: Scanln_def runes_def isSpace_def)
  have m: "runes ''q'' \<noteq> [] \<and> list_all (\<lambda>r. \<not> isSpace r) (runes ''q'')
           \<and> runes '' '' \<noteq> [] \<and> list_all blank (runes '' '') \<and> \<not> isSpace 113"
    by (simp add: runes_def blank_def isSpace_def)
  show ?thesis
    using r e m
      reader_signals_once_and_survives_errors
        [where n = 1 and inp = "runes ''q\<newline>more''" and k = 2]
      reader_signals_once_and_survives_errors
        [where n = 1 and inp = "runes ''q q\<newline>''" and w = "runes ''q''"
           and sep = "runes '' ''" and r = 113 and rs = "runes ''\<newline>''"]
    by blast
qed

text \<open>
  Claim C10. The line \<^verbatim>\<open>q qq\<close> holds a quit token and a second word. The first read
  reports \<^verbatim>\<open>expected newline\<close> and its round sends nothing, but it has consumed the line
  only up to the first rune of the second word; the next round reads what is left of the
  same line, the word \<^verbatim>\<open>q\<close>, and the reader sends and returns.
\<close>

theorem leftover_of_rejected_line_quits:
  "Scanln (runes ''q qq\<newline>'') = (runes ''q'', Some ''expected newline'', runes ''q\<newline>'')
   \<and> monitorKeyboard 1 (runes ''q qq\<newline>'') =
       \<lparr>stdin = runes ''q\<newline>'', keyboardChan = [], returned = False\<rparr>
   \<and> monitorKeyboard 2 (runes ''q qq\<newline>'') =
       \<lparr>stdin = [], keyboardChan = [()], returned = True\<rparr>"
  by (simp add: numeral_2_eq_2 Scanln_def runes_def isSpace_def)

end
